theory Spec2Isabelle
  imports Complex_Main "HOL-Library.Log_Nat" "HOL-Library.AList"
begin

section \<open>Python values\<close>

text \<open>
  The agent of \<^verbatim>\<open>minisweagent/agents/default.py\<close> passes untyped dictionaries around.
  A Python float is a binary64 number: a finite one is the rational it denotes, and the
  sign of zero is not kept (no operation of the agent observes it).
\<close>

datatype pyfloat = Fin rat | PInf | NInf | NaN

text \<open>
  \<open>PObj md d\<close> is any object that is no number, string, list or dictionary, described
  by what the agent can observe of it: the result of its \<^verbatim>\<open>model_dump()\<close> when it has
  that method, and its \<^verbatim>\<open>__dict__\<close> when it has one. Such an object is truthy and has
  no \<^verbatim>\<open>get\<close> method. Dictionary keys are strings; a dictionary keeps its insertion order.
\<close>

datatype pyval =
    PNone
  | PBool bool
  | PInt int
  | PFloat pyfloat
  | PStr string
  | PList "pyval list"
  | PDict "(string \<times> pyval) list"
  | PObj "pyval option" "(string \<times> pyval) list option"

type_synonym pydict = "(string \<times> pyval) list"
type_synonym message = pydict
type_synonym path = string

text \<open>Exceptions, by the \<^verbatim>\<open>except\<close> clauses of \<^verbatim>\<open>run\<close> that tell them apart.\<close>

datatype exn =
    InterruptAgentFlow string "message list"
      \<comment> \<open>class name and carried messages: \<^verbatim>\<open>InterruptAgentFlow\<close> and its subclasses\<close>
  | PyException string string
      \<comment> \<open>class name and \<^verbatim>\<open>str(e)\<close>: any other instance of \<^verbatim>\<open>Exception\<close>\<close>
  | PyBaseException string string
      \<comment> \<open>\<^verbatim>\<open>KeyboardInterrupt\<close>, \<^verbatim>\<open>SystemExit\<close>: not an instance of \<^verbatim>\<open>Exception\<close>\<close>

definition dict_get :: "pydict \<Rightarrow> string \<Rightarrow> pyval option" where
  "dict_get d k = map_of d k"

definition py_get :: "pydict \<Rightarrow> string \<Rightarrow> pyval \<Rightarrow> pyval" where
  \<comment> \<open>\<^verbatim>\<open>d.get(k, default)\<close>\<close>
  "py_get d k dflt = (case map_of d k of None \<Rightarrow> dflt | Some v \<Rightarrow> v)"

definition dict_set :: "pydict \<Rightarrow> string \<Rightarrow> pyval \<Rightarrow> pydict" where
  \<comment> \<open>\<^verbatim>\<open>d[k] = v\<close>: a present key keeps its place, a new key goes last\<close>
  "dict_set d k v = AList.update k v d"

definition dict_update :: "pydict \<Rightarrow> pydict \<Rightarrow> pydict" where
  \<comment> \<open>\<^verbatim>\<open>d |= e\<close>\<close>
  "dict_update d e = foldl (\<lambda>acc (k, v). dict_set acc k v) d e"

fun truthy :: "pyval \<Rightarrow> bool" where
  "truthy PNone = False"
| "truthy (PBool b) = b"
| "truthy (PInt i) = (i \<noteq> 0)"
| "truthy (PFloat f) = (f \<noteq> Fin 0)"
| "truthy (PStr s) = (s \<noteq> [])"
| "truthy (PList xs) = (xs \<noteq> [])"
| "truthy (PDict d) = (d \<noteq> [])"
| "truthy (PObj md d) = True"

fun isinstance_int :: "pyval \<Rightarrow> bool" where
  \<comment> \<open>\<^verbatim>\<open>isinstance(v, int)\<close>: \<^verbatim>\<open>bool\<close> is a subclass of \<^verbatim>\<open>int\<close>\<close>
  "isinstance_int (PInt i) = True"
| "isinstance_int (PBool b) = True"
| "isinstance_int v = False"

fun isinstance_dict :: "pyval \<Rightarrow> bool" where
  "isinstance_dict (PDict d) = True"
| "isinstance_dict v = False"

fun int_value :: "pyval \<Rightarrow> int" where
  \<comment> \<open>the number an \<^verbatim>\<open>int\<close> instance stands for in arithmetic\<close>
  "int_value (PInt i) = i"
| "int_value (PBool b) = (if b then 1 else 0)"
| "int_value v = 0"

section \<open>Binary64 arithmetic\<close>

definition pow2 :: "int \<Rightarrow> rat" where
  "pow2 k = (if 0 \<le> k then 2 ^ nat k else 1 / 2 ^ nat (- k))"

definition ilog2 :: "rat \<Rightarrow> int" where
  \<comment> \<open>the binary exponent of a positive rational: \<open>pow2 e \<le> x < pow2 (e + 1)\<close>\<close>
  "ilog2 x =
     (if 1 \<le> x then bitlen \<lfloor>x\<rfloor> - 1
      else let m = bitlen \<lfloor>1 / x\<rfloor> - 1 in if x * pow2 m = 1 then - m else - m - 1)"

definition round_half_even :: "rat \<Rightarrow> int" where
  "round_half_even q =
     (let f = \<lfloor>q\<rfloor>; r = q - of_int f
      in if r < 1 / 2 then f else if 1 / 2 < r then f + 1 else if even f then f else f + 1)"

definition round_mag :: "rat \<Rightarrow> rat" where
  \<comment> \<open>a positive rational rounded to 53 significant bits (fewer below \<open>pow2 (-1022)\<close>)\<close>
  "round_mag a =
     (let u = pow2 (max (ilog2 a) (- 1022) - 52) in of_int (round_half_even (a / u)) * u)"

definition round_binary64 :: "rat \<Rightarrow> pyfloat" where
  \<comment> \<open>round to nearest, ties to even; a result of \<open>pow2 1024\<close> or more is an infinity\<close>
  "round_binary64 x =
     (if x = 0 then Fin 0
      else let r = round_mag \<bar>x\<bar>
           in if pow2 1024 \<le> r then (if 0 < x then PInf else NInf)
              else Fin (if 0 < x then r else - r))"

fun float_add :: "pyfloat \<Rightarrow> pyfloat \<Rightarrow> pyfloat" where
  "float_add (Fin a) (Fin b) = round_binary64 (a + b)"
| "float_add NaN y = NaN"
| "float_add x NaN = NaN"
| "float_add PInf NInf = NaN"
| "float_add NInf PInf = NaN"
| "float_add PInf y = PInf"
| "float_add NInf y = NInf"
| "float_add x PInf = PInf"
| "float_add x NInf = NInf"

fun float_neg :: "pyfloat \<Rightarrow> pyfloat" where
  "float_neg (Fin a) = Fin (- a)"
| "float_neg PInf = NInf"
| "float_neg NInf = PInf"
| "float_neg NaN = NaN"

definition float_sub :: "pyfloat \<Rightarrow> pyfloat \<Rightarrow> pyfloat" where
  "float_sub x y = float_add x (float_neg y)"

fun float_mul :: "pyfloat \<Rightarrow> pyfloat \<Rightarrow> pyfloat" where
  "float_mul (Fin a) (Fin b) = round_binary64 (a * b)"
| "float_mul NaN y = NaN"
| "float_mul x NaN = NaN"
| "float_mul (Fin a) PInf = (if a = 0 then NaN else if 0 < a then PInf else NInf)"
| "float_mul (Fin a) NInf = (if a = 0 then NaN else if 0 < a then NInf else PInf)"
| "float_mul PInf (Fin b) = (if b = 0 then NaN else if 0 < b then PInf else NInf)"
| "float_mul NInf (Fin b) = (if b = 0 then NaN else if 0 < b then NInf else PInf)"
| "float_mul PInf PInf = PInf"
| "float_mul NInf NInf = PInf"
| "float_mul PInf NInf = NInf"
| "float_mul NInf PInf = NInf"

fun float_le :: "pyfloat \<Rightarrow> pyfloat \<Rightarrow> bool" where
  \<comment> \<open>\<^verbatim>\<open>x <= y\<close>: false as soon as one side is NaN\<close>
  "float_le NaN y = False"
| "float_le x NaN = False"
| "float_le NInf y = True"
| "float_le x PInf = True"
| "float_le PInf y = False"
| "float_le x NInf = False"
| "float_le (Fin a) (Fin b) = (a \<le> b)"

fun float_lt :: "pyfloat \<Rightarrow> pyfloat \<Rightarrow> bool" where
  "float_lt NaN y = False"
| "float_lt x NaN = False"
| "float_lt PInf y = False"
| "float_lt x NInf = False"
| "float_lt NInf y = True"
| "float_lt x PInf = True"
| "float_lt (Fin a) (Fin b) = (a < b)"

definition int_to_float :: "int \<Rightarrow> exn + pyfloat" where
  \<comment> \<open>the conversion of an \<^verbatim>\<open>int\<close> operand of a float operation\<close>
  "int_to_float i =
     (case round_binary64 (of_int i) of
        Fin r \<Rightarrow> Inr (Fin r)
      | _ \<Rightarrow> Inl (PyException ''OverflowError'' ''int too large to convert to float''))"

definition int_true_div :: "int \<Rightarrow> int \<Rightarrow> exn + pyfloat" where
  \<comment> \<open>\<^verbatim>\<open>a / b\<close> on two \<^verbatim>\<open>int\<close>s: the correctly rounded quotient\<close>
  "int_true_div a b =
     (if b = 0 then Inl (PyException ''ZeroDivisionError'' ''division by zero'')
      else case round_binary64 (of_int a / of_int b) of
             Fin r \<Rightarrow> Inr (Fin r)
           | _ \<Rightarrow> Inl (PyException ''OverflowError''
                        ''integer division result too large for a float''))"

definition truncate :: "rat \<Rightarrow> int" where
  \<comment> \<open>towards zero\<close>
  "truncate q = (if 0 \<le> q then \<lfloor>q\<rfloor> else \<lceil>q\<rceil>)"

fun int_of_float :: "pyfloat \<Rightarrow> exn + int" where
  \<comment> \<open>\<^verbatim>\<open>int(x)\<close> on a float\<close>
  "int_of_float (Fin q) = Inr (truncate q)"
| "int_of_float NaN = Inl (PyException ''ValueError'' ''cannot convert float NaN to integer'')"
| "int_of_float x = Inl (PyException ''OverflowError'' ''cannot convert float infinity to integer'')"

text \<open>
  \<^verbatim>\<open>int(100 * (1 - (prompt_tokens / self.context_window_max)))\<close>, the expression of
  \<^verbatim>\<open>_update_context_window_stats\<close>: an \<^verbatim>\<open>int\<close> division, a float subtraction, a float
  multiplication, and the conversion back, which drops the fraction.
\<close>

definition left :: "int \<Rightarrow> int \<Rightarrow> exn + int" where
  "left prompt_tokens cwmax =
     (case int_true_div prompt_tokens cwmax of
        Inl e \<Rightarrow> Inl e
      | Inr x \<Rightarrow> int_of_float (float_mul (Fin 100) (float_sub (Fin 1) x)))"

section \<open>Configuration, agent state and the world outside the agent\<close>

record agent_config =
  system_template :: string
  instance_template :: string
  step_limit :: int
  cost_limit :: pyfloat
  output_path :: "path option"

definition model_dump :: "agent_config \<Rightarrow> pydict" where
  "model_dump c =
     [(''system_template'', PStr (system_template c)),
      (''instance_template'', PStr (instance_template c)),
      (''step_limit'', PInt (step_limit c)),
      (''cost_limit'', PFloat (cost_limit c)),
      (''output_path'', (case output_path c of None \<Rightarrow> PNone | Some p \<Rightarrow> PStr p))]"

record agent =
  config :: agent_config
  messages :: "message list"
  extra_template_vars :: pydict
  cost :: pyfloat
  n_calls :: int
  live_trajectory_path :: "path option"
  context_window_max :: "int option"
  context_window_prompt_tokens :: "pyval option"
  context_left_percent :: "int option"
  context_window_mode :: string
  agent_type :: string

definition init_agent :: "agent_config \<Rightarrow> agent" where
  \<comment> \<open>\<^verbatim>\<open>DefaultAgent.__init__\<close>\<close>
  "init_agent c =
     \<lparr>config = c, messages = [], extra_template_vars = [], cost = Fin 0, n_calls = 0,
      live_trajectory_path = None, context_window_max = None,
      context_window_prompt_tokens = None, context_left_percent = None,
      context_window_mode = ''auto'',
      agent_type = ''minisweagent.agents.default.DefaultAgent''\<rparr>"

text \<open>
  The world holds what the agent reaches but does not own: the state of the model and
  environment collaborators (\<open>collab\<close>), the files (a file is the list of JSON values
  written to it, one per line for the live log), the paths whose writes fail with
  \<^verbatim>\<open>OSError\<close>, the persisted context window map, the warnings logged, and the record
  of calls made to the collaborators.
\<close>

datatype event = ModelQuery "message list" | ModelReturned | EnvExecute pyval

record 'c world =
  collab :: 'c
  files :: "(path \<times> pyval list) list"
  unwritable :: "path list"
  context_window_map :: "(string \<times> int) list"
  warnings :: "(path \<times> exn) list"
  trace :: "event list"

type_synonym 'c state = "agent \<times> 'c world"

definition write_text :: "path \<Rightarrow> pyval \<Rightarrow> 'c world \<Rightarrow> exn + 'c world" where
  \<comment> \<open>\<^verbatim>\<open>path.parent.mkdir(parents=True, exist_ok=True); path.write_text(json.dumps(...))\<close>\<close>
  "write_text p doc w =
     (if p \<in> set (unwritable w) then Inl (PyException ''OSError'' p)
      else Inr (w\<lparr>files := AList.update p [doc] (files w)\<rparr>))"

definition append_lines :: "path \<Rightarrow> pyval list \<Rightarrow> 'c world \<Rightarrow> exn + 'c world" where
  \<comment> \<open>the \<^verbatim>\<open>mkdir\<close>, \<^verbatim>\<open>open("a")\<close> and the writes of \<^verbatim>\<open>add_messages\<close>\<close>
  "append_lines p ls w =
     (if p \<in> set (unwritable w) then Inl (PyException ''OSError'' p)
      else Inr (w\<lparr>files :=
        AList.update p ((case map_of (files w) p of None \<Rightarrow> [] | Some old \<Rightarrow> old) @ ls) (files w)\<rparr>))"

definition unlink :: "path \<Rightarrow> 'c world \<Rightarrow> exn + 'c world" where
  \<comment> \<open>\<^verbatim>\<open>path.parent.mkdir(parents=True, exist_ok=True); path.unlink(missing_ok=True)\<close>\<close>
  "unlink p w =
     (if p \<in> set (unwritable w) then Inl (PyException ''OSError'' p)
      else Inr (w\<lparr>files := AList.delete p (files w)\<rparr>))"

text \<open>
  The collaborators and the library functions the agent calls. The model's
  \<^verbatim>\<open>query\<close> and \<^verbatim>\<open>format_observation_messages\<close>, the environment's \<^verbatim>\<open>execute\<close> and
  the \<^verbatim>\<open>serialize\<close> of both may change the collaborators' state and may raise;
  \<^verbatim>\<open>get_template_vars\<close> reads that state. \<open>model_name\<close> is
  \<^verbatim>\<open>getattr(getattr(model, "config", None), "model_name", None)\<close>; \<open>render\<close> is the Jinja
  rendering of a template with \<^verbatim>\<open>StrictUndefined\<close>; \<open>format_exc\<close> is
  \<^verbatim>\<open>traceback.format_exc()\<close> while the exception is handled; \<open>mini_version\<close> is
  \<^verbatim>\<open>minisweagent.__version__\<close>.
\<close>

record 'c collaborators =
  model_query :: "message list \<Rightarrow> 'c \<Rightarrow> (exn + message) \<times> 'c"
  model_format_observation_messages ::
    "message \<Rightarrow> pyval list \<Rightarrow> pydict \<Rightarrow> 'c \<Rightarrow> (exn + message list) \<times> 'c"
  model_get_template_vars :: "'c \<Rightarrow> pydict"
  model_serialize :: "'c \<Rightarrow> (exn + pydict) \<times> 'c"
  model_name :: "'c \<Rightarrow> pyval"
  env_execute :: "pyval \<Rightarrow> 'c \<Rightarrow> (exn + pyval) \<times> 'c"
  env_get_template_vars :: "'c \<Rightarrow> pydict"
  env_serialize :: "'c \<Rightarrow> (exn + pydict) \<times> 'c"
  render :: "string \<Rightarrow> pydict \<Rightarrow> exn + string"
  format_exc :: "exn \<Rightarrow> string"
  normalize_model_name :: "string \<Rightarrow> string"
  mini_version :: string

text \<open>
  Modelled from the spec: \<^verbatim>\<open>Model.format_message\<close> is not among the sources. The
  spec gives \<^verbatim>\<open>format_message(role, content, extra) -> Message\<close> and a Message as
  \<^verbatim>\<open>{role, content, extra}\<close>; the message holds the arguments passed.
\<close>

definition format_message :: "string \<Rightarrow> string \<Rightarrow> pydict option \<Rightarrow> message" where
  "format_message role content extra =
     [(''role'', PStr role), (''content'', PStr content)]
     @ (case extra of None \<Rightarrow> [] | Some ex \<Rightarrow> [(''extra'', PDict ex)])"

text \<open>
  Modelled from the spec: \<^verbatim>\<open>recursive_merge\<close> of \<^verbatim>\<open>minisweagent.utils.serialize\<close> is not
  among the sources. The spec: mapping keys combine recursively; non-mapping leaf values
  from later arguments override earlier ones.
\<close>

fun merge_items :: "pydict \<Rightarrow> pydict \<Rightarrow> pydict" where
  "merge_items res [] = res"
| "merge_items res ((k, PDict new) # kvs) =
     merge_items
       (AList.update k
          (case map_of res k of
             Some (PDict old) \<Rightarrow> PDict (merge_items old new)
           | _ \<Rightarrow> PDict new) res) kvs"
| "merge_items res ((k, v) # kvs) = merge_items (AList.update k v res) kvs"

definition recursive_merge :: "pydict list \<Rightarrow> pydict" where
  "recursive_merge ds = foldl merge_items [] ds"

text \<open>
  Modelled from the spec: \<^verbatim>\<open>load_context_window_map\<close>, \<^verbatim>\<open>lookup_context_window\<close> and
  \<^verbatim>\<open>update_context_window_map\<close> of \<^verbatim>\<open>minisweagent.models.context_window\<close> are not among
  the sources. The spec: the name is normalized and looked up in the persisted map, whose
  keys are raw model names; an update rewrites the map with the value under the given key.
  The normalization itself is a parameter (\<open>normalize_model_name\<close>).
\<close>

definition load_context_window_map :: "'c world \<Rightarrow> (string \<times> int) list" where
  "load_context_window_map w = context_window_map w"

definition lookup_context_window ::
  "('c, 'z) collaborators_scheme \<Rightarrow> string \<Rightarrow> (string \<times> int) list \<Rightarrow> int option" where
  "lookup_context_window C name cmap =
     map_option snd
       (find (\<lambda>(k, v). normalize_model_name C k = normalize_model_name C name) cmap)"

definition update_context_window_map :: "string \<Rightarrow> int \<Rightarrow> 'c world \<Rightarrow> 'c world" where
  "update_context_window_map name v w =
     w\<lparr>context_window_map := AList.update name v (context_window_map w)\<rparr>"

section \<open>Trajectory recorder\<close>

definition set_live_trajectory_path :: "path option \<Rightarrow> 'c state \<Rightarrow> 'c state" where
  "set_live_trajectory_path p st =
     (case st of (a, w) \<Rightarrow>
        let a' = a\<lparr>live_trajectory_path := p\<rparr>
        in case p of
             None \<Rightarrow> (a', w)
           | Some q \<Rightarrow>
               (case unlink q w of
                  Inl exc \<Rightarrow> (a', w\<lparr>warnings := warnings w @ [(q, exc)]\<rparr>)
                | Inr w' \<Rightarrow> (a', w')))"

definition get_template_vars ::
  "('c, 'z) collaborators_scheme \<Rightarrow> pydict \<Rightarrow> 'c state \<Rightarrow> pydict" where
  "get_template_vars C kwargs st =
     (case st of (a, w) \<Rightarrow>
        recursive_merge
          [model_dump (config a),
           env_get_template_vars C (collab w),
           model_get_template_vars C (collab w),
           [(''n_model_calls'', PInt (n_calls a)),
            (''model_cost'', PFloat (cost a)),
            (''context_window_max'',
               (case context_window_max a of None \<Rightarrow> PNone | Some v \<Rightarrow> PInt v)),
            (''context_window_prompt_tokens'',
               (case context_window_prompt_tokens a of None \<Rightarrow> PNone | Some v \<Rightarrow> v)),
            (''context_left_percent'',
               (case context_left_percent a of None \<Rightarrow> PNone | Some v \<Rightarrow> PInt v))],
           extra_template_vars a,
           kwargs])"

definition render_template ::
  "('c, 'z) collaborators_scheme \<Rightarrow> string \<Rightarrow> 'c state \<Rightarrow> exn + string" where
  \<comment> \<open>\<^verbatim>\<open>_render_template\<close>\<close>
  "render_template C template st = render C template (get_template_vars C [] st)"

definition add_messages :: "message list \<Rightarrow> 'c state \<Rightarrow> message list \<times> 'c state" where
  "add_messages ms st =
     (case st of (a, w) \<Rightarrow>
        let a' = a\<lparr>messages := messages a @ ms\<rparr>
        in case live_trajectory_path a of
             None \<Rightarrow> (ms, (a', w))
           | Some p \<Rightarrow>
               (case append_lines p (map PDict ms) w of
                  Inl exc \<Rightarrow> (ms, (a', w\<lparr>warnings := warnings w @ [(p, exc)]\<rparr>))
                | Inr w' \<Rightarrow> (ms, (a', w'))))"

fun exn_name :: "exn \<Rightarrow> string" where
  \<comment> \<open>\<^verbatim>\<open>type(e).__name__\<close>\<close>
  "exn_name (InterruptAgentFlow n ms) = n"
| "exn_name (PyException n s) = n"
| "exn_name (PyBaseException n s) = n"

fun exn_str :: "exn \<Rightarrow> string" where
  \<comment> \<open>\<^verbatim>\<open>str(e)\<close>; \<^verbatim>\<open>InterruptAgentFlow\<close> passes no argument to \<^verbatim>\<open>Exception.__init__\<close>\<close>
  "exn_str (InterruptAgentFlow n ms) = []"
| "exn_str (PyException n s) = s"
| "exn_str (PyBaseException n s) = s"

definition handle_uncaught_exception ::
  "('c, 'z) collaborators_scheme \<Rightarrow> exn \<Rightarrow> 'c state \<Rightarrow> message list \<times> 'c state" where
  "handle_uncaught_exception C e st =
     add_messages
       [format_message ''exit'' (exn_str e)
          (Some [(''exit_status'', PStr (exn_name e)),
                 (''submission'', PStr []),
                 (''exception_str'', PStr (exn_str e)),
                 (''traceback'', PStr (format_exc C e))])] st"

definition attribute_error :: exn where
  \<comment> \<open>\<^verbatim>\<open>.get\<close> on a value that is no dictionary\<close>
  "attribute_error = PyException ''AttributeError'' ''object has no attribute get''"

definition serialize ::
  "('c, 'z) collaborators_scheme \<Rightarrow> pydict list \<Rightarrow> 'c state \<Rightarrow> (exn + pydict) \<times> 'c state" where
  "serialize C extra_dicts st =
     (case st of (a, w) \<Rightarrow>
        let last_message = (if messages a \<noteq> [] then last (messages a) else []);
            last_extra = py_get last_message ''extra'' (PDict [])
        in case last_extra of
             PDict ex \<Rightarrow>
               let agent_data =
                 [(''info'', PDict
                     [(''model_stats'', PDict
                         [(''instance_cost'', PFloat (cost a)),
                          (''api_calls'', PInt (n_calls a))]),
                      (''config'', PDict
                         [(''agent'', PDict (model_dump (config a))),
                          (''agent_type'', PStr (agent_type a))]),
                      (''mini_version'', PStr (mini_version C)),
                      (''exit_status'', py_get ex ''exit_status'' (PStr [])),
                      (''submission'', py_get ex ''submission'' (PStr []))]),
                  (''messages'', PList (map PDict (messages a))),
                  (''trajectory_format'', PStr ''mini-swe-agent-1.1'')]
               in (case model_serialize C (collab w) of
                     (Inl e, c1) \<Rightarrow> (Inl e, (a, w\<lparr>collab := c1\<rparr>))
                   | (Inr model_data, c1) \<Rightarrow>
                       (case env_serialize C c1 of
                          (Inl e, c2) \<Rightarrow> (Inl e, (a, w\<lparr>collab := c2\<rparr>))
                        | (Inr env_data, c2) \<Rightarrow>
                            (Inr (recursive_merge ([agent_data, model_data, env_data] @ extra_dicts)),
                             (a, w\<lparr>collab := c2\<rparr>))))
           | _ \<Rightarrow> (Inl attribute_error, st))"

definition save ::
  "('c, 'z) collaborators_scheme \<Rightarrow> path option \<Rightarrow> pydict list \<Rightarrow> 'c state
     \<Rightarrow> (exn + pydict) \<times> 'c state" where
  "save C p extra_dicts st =
     (case serialize C extra_dicts st of
        (Inl e, st') \<Rightarrow> (Inl e, st')
      | (Inr data, (a, w)) \<Rightarrow>
          (case p of
             None \<Rightarrow> (Inr data, (a, w))
           | Some q \<Rightarrow>
               (case write_text q (PDict data) w of
                  Inl e \<Rightarrow> (Inl e, (a, w))
                | Inr w' \<Rightarrow> (Inr data, (a, w')))))"

section \<open>Context window tracker\<close>

definition is_space :: "char \<Rightarrow> bool" where
  \<comment> \<open>the characters below 256 that \<^verbatim>\<open>str.strip()\<close> removes\<close>
  "is_space c =
     (c \<in> set [CHR 0x09, CHR 0x0A, CHR 0x0B, CHR 0x0C, CHR 0x0D,
                CHR 0x1C, CHR 0x1D, CHR 0x1E, CHR 0x1F, CHR 0x20, CHR 0x85, CHR 0xA0])"

definition py_strip :: "string \<Rightarrow> string" where
  "py_strip s = rev (dropWhile is_space (rev (dropWhile is_space s)))"

definition prompt_for_context_window :: "string \<Rightarrow> int option" where
  \<comment> \<open>\<^verbatim>\<open>_prompt_for_context_window\<close>\<close>
  "prompt_for_context_window name = None"

definition resolve_context_window_max ::
  "('c, 'z) collaborators_scheme \<Rightarrow> 'c state \<Rightarrow> 'c state" where
  \<comment> \<open>\<^verbatim>\<open>_resolve_context_window_max\<close>\<close>
  "resolve_context_window_max C st =
     (case st of (a, w) \<Rightarrow>
        if context_window_max a \<noteq> None then (a, w)
        else case model_name C (collab w) of
          PStr raw_name \<Rightarrow>
            if raw_name = [] then (a, w)
            else
              let name = py_strip raw_name
              in if name = [] then (a, w)
                 else
                   let context_map = load_context_window_map w;
                       resolved = lookup_context_window C name context_map;
                       normalized_name = normalize_model_name C name;
                       normalized_keys = map (\<lambda>(k, v). normalize_model_name C k) context_map;
                       (resolved1, w1) =
                         (if resolved = None \<and> context_window_mode a = ''interactive''
                          then (case prompt_for_context_window name of
                                  None \<Rightarrow> (None, w)
                                | Some v \<Rightarrow> (Some v, update_context_window_map name v w))
                          else (resolved, w))
                   in case resolved1 of
                        None \<Rightarrow> (a, w1)
                      | Some v \<Rightarrow>
                          (a\<lparr>context_window_max := Some v\<rparr>,
                           if normalized_name \<in> set normalized_keys then w1
                           else update_context_window_map name v w1)
        | _ \<Rightarrow> (a, w))"

definition resolved_usage :: "message \<Rightarrow> exn + pyval" where
  \<comment> \<open>the value of \<^verbatim>\<open>usage\<close> when \<^verbatim>\<open>_extract_prompt_tokens\<close> reaches its \<^verbatim>\<open>isinstance\<close> test\<close>
  "resolved_usage message =
     (let extra = (case dict_get message ''extra'' of
                     None \<Rightarrow> PDict []
                   | Some v \<Rightarrow> if truthy v then v else PDict [])
      in case extra of
           PDict ex \<Rightarrow>
             let response = py_get ex ''response'' PNone;
                 usage0 = (case response of
                             PDict r \<Rightarrow> if r \<noteq> [] then py_get r ''usage'' PNone else PNone
                           | _ \<Rightarrow> PNone);
                 message_usage = py_get message ''usage'' PNone;
                 usage1 = (if usage0 = PNone \<and> isinstance_dict message_usage
                           then message_usage else usage0);
                 usage2 = (if usage1 = PNone
                           then (case message_usage of PObj (Some md) d \<Rightarrow> md | _ \<Rightarrow> usage1)
                           else usage1);
                 usage3 = (if usage2 = PNone
                           then (case message_usage of PObj md (Some d) \<Rightarrow> PDict d | _ \<Rightarrow> usage2)
                           else usage2)
             in Inr usage3
         | _ \<Rightarrow> Inl attribute_error)"

definition extract_prompt_tokens :: "message \<Rightarrow> exn + pyval option" where
  \<comment> \<open>\<^verbatim>\<open>_extract_prompt_tokens\<close>\<close>
  "extract_prompt_tokens message =
     (case resolved_usage message of
        Inl e \<Rightarrow> Inl e
      | Inr (PDict usage) \<Rightarrow>
          (case dict_get usage ''prompt_tokens'' of
             None \<Rightarrow> Inr None
           | Some prompt_tokens \<Rightarrow>
               Inr (if isinstance_int prompt_tokens then Some prompt_tokens else None))
      | Inr _ \<Rightarrow> Inr None)"

definition update_context_window_stats ::
  "message \<Rightarrow> agent \<Rightarrow> (exn + unit) \<times> message \<times> agent" where
  \<comment> \<open>\<^verbatim>\<open>_update_context_window_stats\<close>: the message is changed in place, so it is returned\<close>
  "update_context_window_stats message a =
     (case extract_prompt_tokens message of
        Inl e \<Rightarrow> (Inl e, message, a)
      | Inr None \<Rightarrow> (Inr (), message, a)
      | Inr (Some prompt_tokens) \<Rightarrow>
          let a1 = a\<lparr>context_window_prompt_tokens := Some prompt_tokens\<rparr>
          in case context_window_max a of
               None \<Rightarrow> (Inr (), message, a1)
             | Some cwmax \<Rightarrow>
                 if cwmax = 0 then (Inr (), message, a1)
                 else case left (int_value prompt_tokens) cwmax of
                        Inl e \<Rightarrow> (Inl e, message, a1)
                      | Inr l \<Rightarrow>
                          let percent = max 0 (min 100 l)
                          in (Inr (),
                              dict_set message ''context_left_percent'' (PInt percent),
                              a1\<lparr>context_left_percent := Some percent\<rparr>))"

section \<open>Agent loop\<close>

text \<open>
  Modelled from the spec: \<^verbatim>\<open>minisweagent.exceptions\<close> is not among the sources. The spec
  has \<^verbatim>\<open>LimitsExceeded\<close> as an expected termination signal whose terminal message the
  loop appends like the messages of a flow interrupt.
\<close>

definition limits_exceeded :: exn where
  "limits_exceeded =
     InterruptAgentFlow ''LimitsExceeded''
       [[(''role'', PStr ''exit''),
         (''content'', PStr ''LimitsExceeded''),
         (''extra'', PDict [(''exit_status'', PStr ''LimitsExceeded''),
                           (''submission'', PStr [])])]]"

definition limits_reached :: "agent \<Rightarrow> bool" where
  \<comment> \<open>the test that opens \<^verbatim>\<open>query\<close>\<close>
  "limits_reached a =
     (0 < step_limit (config a) \<and> step_limit (config a) \<le> n_calls a
      \<or> float_lt (Fin 0) (cost_limit (config a)) \<and> float_le (cost_limit (config a)) (cost a))"

definition declared_cost :: "message \<Rightarrow> exn + pyval" where
  \<comment> \<open>\<^verbatim>\<open>message.get("extra", {}).get("cost", 0.0)\<close>\<close>
  "declared_cost message =
     (case py_get message ''extra'' (PDict []) of
        PDict ex \<Rightarrow> Inr (py_get ex ''cost'' (PFloat (Fin 0)))
      | _ \<Rightarrow> Inl attribute_error)"

fun add_to_cost :: "pyfloat \<Rightarrow> pyval \<Rightarrow> exn + pyfloat" where
  \<comment> \<open>\<^verbatim>\<open>self.cost + v\<close>\<close>
  "add_to_cost c (PFloat f) = Inr (float_add c f)"
| "add_to_cost c (PInt i) =
     (case int_to_float i of Inl e \<Rightarrow> Inl e | Inr f \<Rightarrow> Inr (float_add c f))"
| "add_to_cost c (PBool b) = Inr (float_add c (Fin (if b then 1 else 0)))"
| "add_to_cost c v = Inl (PyException ''TypeError'' ''unsupported operand type(s) for +='')"

definition query ::
  "('c, 'z) collaborators_scheme \<Rightarrow> 'c state \<Rightarrow> (exn + message) \<times> 'c state" where
  "query C st =
     (case st of (a, w) \<Rightarrow>
        if limits_reached a then (Inl limits_exceeded, (a, w))
        else
          let (a1, w1) = (if context_window_max a = None
                          then resolve_context_window_max C (a, w) else (a, w));
              a2 = a1\<lparr>n_calls := n_calls a1 + 1\<rparr>;
              (r, c') = model_query C (messages a2) (collab w1);
              w2 = w1\<lparr>collab := c', trace := trace w1 @ [ModelQuery (messages a2)]\<rparr>
          in case r of
               Inl e \<Rightarrow> (Inl e, (a2, w2))
             | Inr message \<Rightarrow>
                 let w3 = w2\<lparr>trace := trace w2 @ [ModelReturned]\<rparr>
                 in case update_context_window_stats message a2 of
                      (Inl e, message', a3) \<Rightarrow> (Inl e, (a3, w3))
                    | (Inr u, message', a3) \<Rightarrow>
                        (case declared_cost message' of
                           Inl e \<Rightarrow> (Inl e, (a3, w3))
                         | Inr v \<Rightarrow>
                             (case add_to_cost (cost a3) v of
                                Inl e \<Rightarrow> (Inl e, (a3, w3))
                              | Inr c \<Rightarrow>
                                  (Inr message',
                                   snd (add_messages [message'] (a3\<lparr>cost := c\<rparr>, w3))))))"

definition declared_actions :: "message \<Rightarrow> exn + pyval list" where
  \<comment> \<open>what the comprehension of \<^verbatim>\<open>execute_actions\<close> iterates over:
      \<^verbatim>\<open>message.get("extra", {}).get("actions", [])\<close>\<close>
  "declared_actions message =
     (case py_get message ''extra'' (PDict []) of
        PDict ex \<Rightarrow>
          (case py_get ex ''actions'' (PList []) of
             PList xs \<Rightarrow> Inr xs
           | PStr s \<Rightarrow> Inr (map (\<lambda>c. PStr [c]) s)
           | PDict d \<Rightarrow> Inr (map (\<lambda>(k, v). PStr k) d)
           | _ \<Rightarrow> Inl (PyException ''TypeError'' ''object is not iterable''))
      | _ \<Rightarrow> Inl attribute_error)"

fun execute_all ::
  "('c, 'z) collaborators_scheme \<Rightarrow> pyval list \<Rightarrow> 'c world \<Rightarrow> (exn + pyval list) \<times> 'c world" where
  \<comment> \<open>\<^verbatim>\<open>[self.env.execute(action) for action in ...]\<close>\<close>
  "execute_all C [] w = (Inr [], w)"
| "execute_all C (action # actions) w =
     (let (r, c') = env_execute C action (collab w);
          w1 = w\<lparr>collab := c', trace := trace w @ [EnvExecute action]\<rparr>
      in case r of
           Inl e \<Rightarrow> (Inl e, w1)
         | Inr output \<Rightarrow>
             (case execute_all C actions w1 of
                (Inl e, w2) \<Rightarrow> (Inl e, w2)
              | (Inr outputs, w2) \<Rightarrow> (Inr (output # outputs), w2)))"

definition execute_actions ::
  "('c, 'z) collaborators_scheme \<Rightarrow> message \<Rightarrow> 'c state \<Rightarrow> (exn + message list) \<times> 'c state" where
  "execute_actions C message st =
     (case st of (a, w) \<Rightarrow>
        case declared_actions message of
          Inl e \<Rightarrow> (Inl e, (a, w))
        | Inr actions \<Rightarrow>
            (case execute_all C actions w of
               (Inl e, w1) \<Rightarrow> (Inl e, (a, w1))
             | (Inr outputs, w1) \<Rightarrow>
                 let (r, c') = model_format_observation_messages C message outputs
                                 (get_template_vars C [] (a, w1)) (collab w1);
                     w2 = w1\<lparr>collab := c'\<rparr>
                 in case r of
                      Inl e \<Rightarrow> (Inl e, (a, w2))
                    | Inr ms \<Rightarrow> (case add_messages ms (a, w2) of (ms', st') \<Rightarrow> (Inr ms', st'))))"

definition step ::
  "('c, 'z) collaborators_scheme \<Rightarrow> 'c state \<Rightarrow> (exn + message list) \<times> 'c state" where
  "step C st =
     (case query C st of
        (Inl e, st1) \<Rightarrow> (Inl e, st1)
      | (Inr message, st1) \<Rightarrow> execute_actions C message st1)"

text \<open>
  One turn of the \<^verbatim>\<open>while True\<close> of \<^verbatim>\<open>run\<close> up to the end of its \<^verbatim>\<open>finally\<close>: the
  state after the \<^verbatim>\<open>save\<close>, with the exception that leaves the \<^verbatim>\<open>try\<close> statement, if
  one does. An exception raised by the \<^verbatim>\<open>save\<close> of the \<^verbatim>\<open>finally\<close> clause replaces the
  one being propagated.
\<close>

definition guarded_step ::
  "('c, 'z) collaborators_scheme \<Rightarrow> 'c state \<Rightarrow> exn option \<times> 'c state" where
  "guarded_step C st =
     (let (pending, st2) =
        (case step C st of
           (Inr ms, st1) \<Rightarrow> (None, st1)
         | (Inl (InterruptAgentFlow n ms), st1) \<Rightarrow> (None, snd (add_messages ms st1))
         | (Inl (PyException n s), st1) \<Rightarrow>
             (Some (PyException n s),
              snd (handle_uncaught_exception C (PyException n s) st1))
         | (Inl (PyBaseException n s), st1) \<Rightarrow> (Some (PyBaseException n s), st1))
      in case save C (output_path (config (fst st2))) [] st2 of
           (Inl e, st3) \<Rightarrow> (Some e, st3)
         | (Inr data, st3) \<Rightarrow> (pending, st3))"

text \<open>
  The loop may run forever (no limit set and no exit message), so it is given fuel:
  \<open>None\<close> is a loop still running when the fuel is spent.
\<close>

fun run_loop ::
  "('c, 'z) collaborators_scheme \<Rightarrow> nat \<Rightarrow> 'c state \<Rightarrow> ((exn + pyval) \<times> 'c state) option" where
  "run_loop C 0 st = None"
| "run_loop C (Suc fuel) st =
     (case guarded_step C st of
        (Some e, st3) \<Rightarrow> Some (Inl e, st3)
      | (None, st3) \<Rightarrow>
          (case messages (fst st3) of
             [] \<Rightarrow> Some (Inl (PyException ''IndexError'' ''list index out of range''), st3)
           | m # ms \<Rightarrow>
               if dict_get (last (messages (fst st3))) ''role'' = Some (PStr ''exit'')
               then Some (Inr (py_get (last (messages (fst st3))) ''extra'' (PDict [])), st3)
               else run_loop C fuel st3))"

definition run ::
  "('c, 'z) collaborators_scheme \<Rightarrow> nat \<Rightarrow> string \<Rightarrow> pydict \<Rightarrow> 'c state
     \<Rightarrow> ((exn + pyval) \<times> 'c state) option" where
  "run C fuel task kwargs st =
     (case st of (a, w) \<Rightarrow>
        let a1 = a\<lparr>extra_template_vars :=
                     dict_update (extra_template_vars a) (dict_update [(''task'', PStr task)] kwargs)\<rparr>;
            a2 = a1\<lparr>messages := []\<rparr>;
            st3 = resolve_context_window_max C (a2, w)
        in case render_template C (system_template (config a2)) st3 of
             Inl e \<Rightarrow> Some (Inl e, st3)
           | Inr sys \<Rightarrow>
               (case render_template C (instance_template (config a2)) st3 of
                  Inl e \<Rightarrow> Some (Inl e, st3)
                | Inr usr \<Rightarrow>
                    run_loop C fuel
                      (snd (add_messages
                              [format_message ''system'' sys None,
                               format_message ''user'' usr None] st3))))"

section \<open>A scripted model and a small environment\<close>

text \<open>
  Collaborators for concrete runs. The model answers from a script, one entry per query,
  and fails once the script is used up; the environment raises the submission signal on
  the action \<^verbatim>\<open>submit\<close>, fails on \<^verbatim>\<open>crash\<close> and answers \<^verbatim>\<open>ok\<close> otherwise; templates
  render to themselves.
\<close>

definition submitted :: exn where
  "submitted =
     InterruptAgentFlow ''Submitted''
       [[(''role'', PStr ''exit''), (''content'', PStr ''done''),
         (''extra'', PDict [(''exit_status'', PStr ''Submitted''),
                           (''submission'', PStr ''patch'')])]]"

definition scripted :: "((exn + message) list) collaborators" where
  "scripted =
     \<lparr>model_query = (\<lambda>ms c. case c of
          [] \<Rightarrow> (Inl (PyException ''RuntimeError'' ''script exhausted''), [])
        | r # rs \<Rightarrow> (r, rs)),
      model_format_observation_messages = (\<lambda>m outputs tv c.
          (Inr (map (\<lambda>out. [(''role'', PStr ''user''), (''content'', out)]) outputs), c)),
      model_get_template_vars = (\<lambda>c. []),
      model_serialize = (\<lambda>c. (Inr [], c)),
      model_name = (\<lambda>c. PStr ''test-model''),
      env_execute = (\<lambda>action c.
          if action = PStr ''submit'' then (Inl submitted, c)
          else if action = PStr ''crash'' then (Inl (PyException ''RuntimeError'' ''boom''), c)
          else (Inr (PStr ''ok''), c)),
      env_get_template_vars = (\<lambda>c. []),
      env_serialize = (\<lambda>c. (Inr [], c)),
      render = (\<lambda>template vars. Inr template),
      format_exc = (\<lambda>e. ''Traceback (most recent call last)''),
      normalize_model_name = py_strip,
      mini_version = ''2.0.0''\<rparr>"

text \<open>
  Collaborators whose state is a counter: the environment counts the actions it has
  executed, puts the count into each observation and into its part of the snapshot;
  the model counts how often it has been serialized.
\<close>

definition counting :: "(nat \<times> nat) collaborators" where
  "counting =
     \<lparr>model_query = (\<lambda>ms c. (Inl (PyException ''RuntimeError'' ''no model''), c)),
      model_format_observation_messages = (\<lambda>m outputs tv c.
          (Inr (map (\<lambda>out. [(''role'', PStr ''user''), (''content'', out)]) outputs), c)),
      model_get_template_vars = (\<lambda>c. []),
      model_serialize = (\<lambda>(executed, serialized).
          (Inr [(''info'', PDict [(''serialized'', PInt (int serialized))])],
           (executed, Suc serialized))),
      model_name = (\<lambda>c. PNone),
      env_execute = (\<lambda>action (executed, serialized).
          if action = PStr ''crash''
          then (Inl (PyException ''RuntimeError'' ''boom''), (Suc executed, serialized))
          else (Inr (PList [action, PInt (int executed)]), (Suc executed, serialized))),
      env_get_template_vars = (\<lambda>c. []),
      env_serialize = (\<lambda>(executed, serialized).
          (Inr [(''info'', PDict [(''executed'', PInt (int executed))])], (executed, serialized))),
      render = (\<lambda>template vars. Inr template),
      format_exc = (\<lambda>e. ''Traceback (most recent call last)''),
      normalize_model_name = py_strip,
      mini_version = ''2.0.0''\<rparr>"

definition counting_world :: "nat \<times> nat \<Rightarrow> (nat \<times> nat) world" where
  "counting_world c =
     \<lparr>collab = c, files = [], unwritable = [], context_window_map = [],
      warnings = [], trace = []\<rparr>"

definition demo_config :: agent_config where
  "demo_config =
     \<lparr>system_template = ''You are an agent.'', instance_template = ''Fix the bug.'',
      step_limit = 0, cost_limit = Fin 3, output_path = None\<rparr>"

definition demo_world :: "(exn + message) list \<Rightarrow> ((exn + message) list) world" where
  "demo_world script =
     \<lparr>collab = script, files = [], unwritable = [], context_window_map = [],
      warnings = [], trace = []\<rparr>"

definition assistant :: "pydict \<Rightarrow> message" where
  \<comment> \<open>a response of the model with the given \<^verbatim>\<open>extra\<close>\<close>
  "assistant ex = [(''role'', PStr ''assistant''), (''content'', PStr ''reply''), (''extra'', PDict ex)]"

section \<open>Frame lemmas\<close>

lemma resolve_frame:
  "resolve_context_window_max C (a, w) = (a', w') \<Longrightarrow>
     a' = a\<lparr>context_window_max := context_window_max a'\<rparr> \<and>
     w' = w\<lparr>context_window_map := context_window_map w'\<rparr>"
  by (auto simp: resolve_context_window_max_def Let_def prompt_for_context_window_def
        update_context_window_map_def split: pyval.splits if_splits option.splits prod.splits)

lemma resolve_agent:
  "fst (resolve_context_window_max C st) =
     (fst st)\<lparr>context_window_max := context_window_max (fst (resolve_context_window_max C st))\<rparr>"
  using resolve_frame [of C "fst st" "snd st"] by (cases "resolve_context_window_max C st") auto

lemma resolve_world:
  "snd (resolve_context_window_max C st) =
     (snd st)\<lparr>context_window_map := context_window_map (snd (resolve_context_window_max C st))\<rparr>"
  using resolve_frame [of C "fst st" "snd st"] by (cases "resolve_context_window_max C st") auto

lemma resolve_fields [simp]:
  "n_calls (fst (resolve_context_window_max C st)) = n_calls (fst st)"
  "cost (fst (resolve_context_window_max C st)) = cost (fst st)"
  "messages (fst (resolve_context_window_max C st)) = messages (fst st)"
  "config (fst (resolve_context_window_max C st)) = config (fst st)"
  "live_trajectory_path (fst (resolve_context_window_max C st)) = live_trajectory_path (fst st)"
  "context_left_percent (fst (resolve_context_window_max C st)) = context_left_percent (fst st)"
  "context_window_prompt_tokens (fst (resolve_context_window_max C st)) =
     context_window_prompt_tokens (fst st)"
  "trace (snd (resolve_context_window_max C st)) = trace (snd st)"
  "collab (snd (resolve_context_window_max C st)) = collab (snd st)"
  "files (snd (resolve_context_window_max C st)) = files (snd st)"
  "warnings (snd (resolve_context_window_max C st)) = warnings (snd st)"
  "unwritable (snd (resolve_context_window_max C st)) = unwritable (snd st)"
  by (subst resolve_agent, simp)+ (subst resolve_world, simp)+

lemma update_stats_agent:
  "snd (snd (update_context_window_stats m a)) =
     a\<lparr>context_window_prompt_tokens :=
           context_window_prompt_tokens (snd (snd (update_context_window_stats m a))),
        context_left_percent := context_left_percent (snd (snd (update_context_window_stats m a)))\<rparr>"
  by (auto simp: update_context_window_stats_def Let_def
        split: sum.splits option.splits if_splits)

lemma update_stats_fields [simp]:
  "n_calls (snd (snd (update_context_window_stats m a))) = n_calls a"
  "cost (snd (snd (update_context_window_stats m a))) = cost a"
  "messages (snd (snd (update_context_window_stats m a))) = messages a"
  "config (snd (snd (update_context_window_stats m a))) = config a"
  "live_trajectory_path (snd (snd (update_context_window_stats m a))) = live_trajectory_path a"
  "context_window_max (snd (snd (update_context_window_stats m a))) = context_window_max a"
  by (subst update_stats_agent, simp)+

lemma add_messages_fst [simp]: "fst (add_messages ms st) = ms"
  by (simp add: add_messages_def Let_def split: prod.splits option.splits sum.splits)

lemma add_messages_agent [simp]:
  "fst (snd (add_messages ms st)) = (fst st)\<lparr>messages := messages (fst st) @ ms\<rparr>"
  by (simp add: add_messages_def Let_def split: prod.splits option.splits sum.splits)

lemma add_messages_world:
  "snd (snd (add_messages ms st)) =
     (snd st)\<lparr>files := files (snd (snd (add_messages ms st))),
              warnings := warnings (snd (snd (add_messages ms st)))\<rparr>"
  by (auto simp: add_messages_def Let_def append_lines_def
        split: prod.splits option.splits sum.splits if_splits)

lemma add_messages_world_fields [simp]:
  "trace (snd (snd (add_messages ms st))) = trace (snd st)"
  "collab (snd (snd (add_messages ms st))) = collab (snd st)"
  "unwritable (snd (snd (add_messages ms st))) = unwritable (snd st)"
  "context_window_map (snd (snd (add_messages ms st))) = context_window_map (snd st)"
  by (subst add_messages_world, simp)+

lemma query_limits_hit:
  "limits_reached (fst st) \<Longrightarrow> query C st = (Inl limits_exceeded, st)"
  by (simp add: query_def case_prod_beta)

lemma query_n_calls:
  "\<not> limits_reached (fst st) \<Longrightarrow> n_calls (fst (snd (query C st))) = n_calls (fst st) + 1"
  by (simp add: query_def Let_def case_prod_beta split: sum.splits)

lemma query_trace:
  "\<not> limits_reached (fst st) \<Longrightarrow>
     trace (snd (snd (query C st))) = trace (snd st) @ [ModelQuery (messages (fst st))]
     \<or> trace (snd (snd (query C st))) =
         trace (snd st) @ [ModelQuery (messages (fst st)), ModelReturned]"
  by (simp add: query_def Let_def case_prod_beta split: sum.splits)

lemma pow2_pos: "0 < pow2 k"
  by (simp add: pow2_def)

section \<open>Limit tracker\<close>

text \<open>
  C2. Before the model is queried, \<^verbatim>\<open>query\<close> raises \<^verbatim>\<open>LimitsExceeded\<close> and leaves the
  whole state as it was exactly when the step limit is positive and reached by
  \<open>n_calls\<close>, or the cost limit is positive and reached by \<open>cost\<close>; otherwise the model
  is queried (the call is counted and recorded). The exception carries one message, of
  role \<^verbatim>\<open>exit\<close>, with exit status \<^verbatim>\<open>LimitsExceeded\<close> and an empty submission.
\<close>

theorem query_limits_exceeded:
  "((query C (a, w) = (Inl limits_exceeded, (a, w))) \<longleftrightarrow>
      (0 < step_limit (config a) \<and> step_limit (config a) \<le> n_calls a
       \<or> float_lt (Fin 0) (cost_limit (config a)) \<and> float_le (cost_limit (config a)) (cost a)))
   \<and> (query C (a, w) \<noteq> (Inl limits_exceeded, (a, w)) \<longrightarrow>
        n_calls (fst (snd (query C (a, w)))) = n_calls a + 1
        \<and> (\<exists>rest. trace (snd (snd (query C (a, w)))) = trace w @ ModelQuery (messages a) # rest))
   \<and> (\<exists>m ex. limits_exceeded = InterruptAgentFlow ''LimitsExceeded'' [m]
        \<and> dict_get m ''role'' = Some (PStr ''exit'')
        \<and> dict_get m ''extra'' = Some (PDict ex)
        \<and> dict_get ex ''exit_status'' = Some (PStr ''LimitsExceeded'')
        \<and> dict_get ex ''submission'' = Some (PStr []))"
proof -
  have hit: "limits_reached a \<Longrightarrow> query C (a, w) = (Inl limits_exceeded, (a, w))"
    using query_limits_hit [of "(a, w)" C] by simp
  have miss: "\<not> limits_reached a \<Longrightarrow> n_calls (fst (snd (query C (a, w)))) = n_calls a + 1"
    using query_n_calls [of "(a, w)" C] by simp
  have tr: "\<not> limits_reached a \<Longrightarrow>
      \<exists>rest. trace (snd (snd (query C (a, w)))) = trace w @ ModelQuery (messages a) # rest"
    using query_trace [of "(a, w)" C] by auto
  have differs: "\<not> limits_reached a \<Longrightarrow> query C (a, w) \<noteq> (Inl limits_exceeded, (a, w))"
  proof
    assume "\<not> limits_reached a" and "query C (a, w) = (Inl limits_exceeded, (a, w))"
    with miss show False by simp
  qed
  have msg: "\<exists>m ex. limits_exceeded = InterruptAgentFlow ''LimitsExceeded'' [m]
        \<and> dict_get m ''role'' = Some (PStr ''exit'')
        \<and> dict_get m ''extra'' = Some (PDict ex)
        \<and> dict_get ex ''exit_status'' = Some (PStr ''LimitsExceeded'')
        \<and> dict_get ex ''submission'' = Some (PStr [])"
    by (simp add: limits_exceeded_def dict_get_def)
  show ?thesis
    using hit miss tr differs msg unfolding limits_reached_def by blast
qed

theorem query_limits_exceeded_witness:
  "query scripted (init_agent (demo_config\<lparr>step_limit := 2\<rparr>)\<lparr>n_calls := 2\<rparr>, demo_world [])
     = (Inl limits_exceeded, (init_agent (demo_config\<lparr>step_limit := 2\<rparr>)\<lparr>n_calls := 2\<rparr>, demo_world []))
   \<and> query scripted (init_agent demo_config, demo_world [])
     \<noteq> (Inl limits_exceeded, (init_agent demo_config, demo_world []))
   \<and> n_calls (fst (snd (query scripted (init_agent demo_config, demo_world [])))) = 1"
  using query_limits_exceeded [of scripted "init_agent (demo_config\<lparr>step_limit := 2\<rparr>)\<lparr>n_calls := 2\<rparr>" "demo_world []"]
    query_limits_exceeded [of scripted "init_agent demo_config" "demo_world []"]
  by (simp add: init_agent_def demo_config_def)

section \<open>Prompt-token extraction\<close>

text \<open>
  C10. \<^verbatim>\<open>_extract_prompt_tokens\<close> returns a value only when that value is the
  \<^verbatim>\<open>prompt_tokens\<close> entry of the resolved usage and is an integer; when the resolved
  usage has no such entry, or one that is not an integer, it returns nothing and the
  budget update leaves the message and the agent untouched. The usage is resolved by
  precedence: the usage of the response stored under \<^verbatim>\<open>extra\<close> when it is there, else
  the message's own \<^verbatim>\<open>usage\<close>, which may be a dictionary or an object with attributes.
\<close>

theorem extract_prompt_tokens_int_only:
  "(extract_prompt_tokens m = Inr (Some v) \<longrightarrow>
      (\<exists>usage. resolved_usage m = Inr (PDict usage)
         \<and> dict_get usage ''prompt_tokens'' = Some v \<and> isinstance_int v))
   \<and> (resolved_usage m = Inr (PDict usage)
        \<and> (dict_get usage ''prompt_tokens'' = None
           \<or> (\<exists>u. dict_get usage ''prompt_tokens'' = Some u \<and> \<not> isinstance_int u))
      \<longrightarrow> extract_prompt_tokens m = Inr None
          \<and> update_context_window_stats m a = (Inr (), m, a))
   \<and> (dict_get m ''extra'' = Some (PDict ex) \<and> dict_get ex ''response'' = Some (PDict r)
        \<and> dict_get r ''usage'' = Some u0 \<and> u0 \<noteq> PNone \<longrightarrow> resolved_usage m = Inr u0)
   \<and> (dict_get m ''extra'' = Some (PDict ex) \<and> dict_get ex ''response'' = None
        \<and> dict_get m ''usage'' = Some (PDict d) \<longrightarrow> resolved_usage m = Inr (PDict d))
   \<and> (dict_get m ''extra'' = Some (PDict ex) \<and> dict_get ex ''response'' = None
        \<and> dict_get m ''usage'' = Some (PObj None (Some d)) \<longrightarrow> resolved_usage m = Inr (PDict d))"
proof -
  have 1: "extract_prompt_tokens m = Inr (Some v) \<longrightarrow>
      (\<exists>usage. resolved_usage m = Inr (PDict usage)
         \<and> dict_get usage ''prompt_tokens'' = Some v \<and> isinstance_int v)"
    by (auto simp: extract_prompt_tokens_def split: sum.splits pyval.splits option.splits if_splits)
  have 2: "resolved_usage m = Inr (PDict usage)
        \<and> (dict_get usage ''prompt_tokens'' = None
           \<or> (\<exists>u. dict_get usage ''prompt_tokens'' = Some u \<and> \<not> isinstance_int u))
      \<longrightarrow> extract_prompt_tokens m = Inr None
          \<and> update_context_window_stats m a = (Inr (), m, a)"
    by (auto simp: extract_prompt_tokens_def update_context_window_stats_def)
  have 3: "dict_get m ''extra'' = Some (PDict ex) \<and> dict_get ex ''response'' = Some (PDict r)
        \<and> dict_get r ''usage'' = Some u0 \<and> u0 \<noteq> PNone \<longrightarrow> resolved_usage m = Inr u0"
    by (auto simp: resolved_usage_def Let_def dict_get_def py_get_def)
  have 4: "dict_get m ''extra'' = Some (PDict ex) \<and> dict_get ex ''response'' = None
        \<and> dict_get m ''usage'' = Some (PDict d) \<longrightarrow> resolved_usage m = Inr (PDict d)"
    by (auto simp: resolved_usage_def Let_def dict_get_def py_get_def)
  have 5: "dict_get m ''extra'' = Some (PDict ex) \<and> dict_get ex ''response'' = None
        \<and> dict_get m ''usage'' = Some (PObj None (Some d)) \<longrightarrow> resolved_usage m = Inr (PDict d)"
    by (auto simp: resolved_usage_def Let_def dict_get_def py_get_def)
  show ?thesis using 1 2 3 4 5 by blast
qed

theorem extract_prompt_tokens_int_only_witness:
  "resolved_usage
      [(''role'', PStr ''assistant''),
       (''extra'', PDict [(''response'', PDict [(''usage'', PDict [(''prompt_tokens'', PStr ''250'')])])]),
       (''usage'', PDict [(''prompt_tokens'', PInt 7)])]
     = Inr (PDict [(''prompt_tokens'', PStr ''250'')])
   \<and> extract_prompt_tokens
      [(''role'', PStr ''assistant''),
       (''extra'', PDict [(''response'', PDict [(''usage'', PDict [(''prompt_tokens'', PStr ''250'')])])]),
       (''usage'', PDict [(''prompt_tokens'', PInt 7)])]
     = Inr None"
  using extract_prompt_tokens_int_only [of
      "[(''role'', PStr ''assistant''),
       (''extra'', PDict [(''response'', PDict [(''usage'', PDict [(''prompt_tokens'', PStr ''250'')])])]),
       (''usage'', PDict [(''prompt_tokens'', PInt 7)])]"
      "PInt 0" "[(''prompt_tokens'', PStr ''250'')]" "init_agent demo_config"
      "[(''response'', PDict [(''usage'', PDict [(''prompt_tokens'', PStr ''250'')])])]"
      "[(''usage'', PDict [(''prompt_tokens'', PStr ''250'')])]"
      "PDict [(''prompt_tokens'', PStr ''250'')]" "[]"]
  by (simp add: dict_get_def)

section \<open>Action executor\<close>

lemma execute_all_Cons:
  "execute_all C (x # xs) w =
     (case fst (env_execute C x (collab w)) of
        Inl e \<Rightarrow> (Inl e, w\<lparr>collab := snd (env_execute C x (collab w)),
                           trace := trace w @ [EnvExecute x]\<rparr>)
      | Inr out \<Rightarrow>
          (case fst (execute_all C xs (w\<lparr>collab := snd (env_execute C x (collab w)),
                                          trace := trace w @ [EnvExecute x]\<rparr>)) of
             Inl e \<Rightarrow> (Inl e, snd (execute_all C xs (w\<lparr>collab := snd (env_execute C x (collab w)),
                                          trace := trace w @ [EnvExecute x]\<rparr>)))
           | Inr outs \<Rightarrow> (Inr (out # outs), snd (execute_all C xs (w\<lparr>collab := snd (env_execute C x (collab w)),
                                          trace := trace w @ [EnvExecute x]\<rparr>)))))"
  by (simp add: Let_def case_prod_beta split: sum.splits prod.splits)

lemma execute_all_returns:
  "execute_all C actions w = (Inr outputs, w1) \<Longrightarrow>
     length outputs = length actions
     \<and> (\<exists>cs. length cs = Suc (length actions) \<and> cs ! 0 = collab w
            \<and> cs ! length actions = collab w1
            \<and> (\<forall>i<length actions.
                  env_execute C (actions ! i) (cs ! i) = (Inr (outputs ! i), cs ! Suc i)))
     \<and> w1 = w\<lparr>collab := collab w1, trace := trace w @ map EnvExecute actions\<rparr>"
proof (induction actions arbitrary: w outputs)
  case Nil
  then have "w1 = w" and "outputs = []" by simp_all
  then show ?case by (auto intro: exI [of _ "[collab w]"])
next
  case (Cons x xs)
  define w' where "w' = w\<lparr>collab := snd (env_execute C x (collab w)), trace := trace w @ [EnvExecute x]\<rparr>"
  from Cons.prems obtain out outs where
    out: "fst (env_execute C x (collab w)) = Inr out"
    and rest: "execute_all C xs w' = (Inr outs, w1)" and outputs: "outputs = out # outs"
    unfolding execute_all_Cons w'_def [symmetric]
    by (auto split: sum.splits simp: prod_eq_iff)
  from Cons.IH [OF rest] obtain cs where
    len: "length outs = length xs"
    and cs: "length cs = Suc (length xs)" "cs ! 0 = collab w'" "cs ! length xs = collab w1"
    and calls: "\<forall>i<length xs. env_execute C (xs ! i) (cs ! i) = (Inr (outs ! i), cs ! Suc i)"
    and frame: "w1 = w'\<lparr>collab := collab w1, trace := trace w' @ map EnvExecute xs\<rparr>"
    by blast
  have first: "env_execute C x (collab w) = (Inr out, cs ! 0)"
    using out cs(2) by (simp add: w'_def prod_eq_iff)
  have "\<forall>i<length (x # xs).
          env_execute C ((x # xs) ! i) ((collab w # cs) ! i) = (Inr (outputs ! i), (collab w # cs) ! Suc i)"
  proof (intro allI impI)
    fix i assume "i < length (x # xs)"
    then show "env_execute C ((x # xs) ! i) ((collab w # cs) ! i)
                 = (Inr (outputs ! i), (collab w # cs) ! Suc i)"
      using first calls outputs by (cases i) auto
  qed
  moreover have "length (collab w # cs) = Suc (length (x # xs))" using cs(1) by simp
  moreover have "(collab w # cs) ! 0 = collab w" by simp
  moreover have "(collab w # cs) ! length (x # xs) = collab w1" using cs(3) by simp
  moreover have "w1 = w\<lparr>collab := collab w1, trace := trace w @ map EnvExecute (x # xs)\<rparr>"
    using frame by (simp add: w'_def)
  moreover have "length outputs = length (x # xs)" using len outputs by simp
  ultimately show ?case by blast
qed

lemma execute_all_raises:
  "execute_all C actions w = (Inl e, w1) \<Longrightarrow>
     \<exists>k cs outs. k < length actions \<and> length cs = Suc k \<and> length outs = k \<and> cs ! 0 = collab w
        \<and> (\<forall>i<k. env_execute C (actions ! i) (cs ! i) = (Inr (outs ! i), cs ! Suc i))
        \<and> env_execute C (actions ! k) (cs ! k) = (Inl e, collab w1)
        \<and> w1 = w\<lparr>collab := collab w1, trace := trace w @ map EnvExecute (take (Suc k) actions)\<rparr>"
proof (induction actions arbitrary: w)
  case Nil
  then show ?case by simp
next
  case (Cons x xs)
  define w' where "w' = w\<lparr>collab := snd (env_execute C x (collab w)), trace := trace w @ [EnvExecute x]\<rparr>"
  show ?case
  proof (cases "fst (env_execute C x (collab w))")
    case (Inl e')
    with Cons.prems have e: "e' = e" and w1: "w1 = w'"
      unfolding execute_all_Cons w'_def by auto
    have "env_execute C ((x # xs) ! 0) ([collab w] ! 0) = (Inl e, collab w1)"
      using Inl e w1 by (simp add: w'_def prod_eq_iff)
    moreover have "w1 = w\<lparr>collab := collab w1, trace := trace w @ map EnvExecute (take (Suc 0) (x # xs))\<rparr>"
      using w1 by (simp add: w'_def)
    ultimately show ?thesis
      by (intro exI [of _ 0] exI [of _ "[collab w]"] exI [of _ "[]"]) simp
  next
    case (Inr out)
    with Cons.prems have "execute_all C xs w' = (Inl e, w1)"
      unfolding execute_all_Cons w'_def [symmetric]
      by (auto split: sum.splits simp: prod_eq_iff)
    from Cons.IH [OF this] obtain k cs outs where k: "k < length xs"
      and cs: "length cs = Suc k" "length outs = k" "cs ! 0 = collab w'"
      and calls: "\<forall>i<k. env_execute C (xs ! i) (cs ! i) = (Inr (outs ! i), cs ! Suc i)"
      and bad: "env_execute C (xs ! k) (cs ! k) = (Inl e, collab w1)"
      and frame: "w1 = w'\<lparr>collab := collab w1, trace := trace w' @ map EnvExecute (take (Suc k) xs)\<rparr>"
      by blast
    have first: "env_execute C x (collab w) = (Inr out, cs ! 0)"
      using Inr cs(3) by (simp add: w'_def prod_eq_iff)
    have "\<forall>i<Suc k. env_execute C ((x # xs) ! i) ((collab w # cs) ! i)
            = (Inr ((out # outs) ! i), (collab w # cs) ! Suc i)"
    proof (intro allI impI)
      fix i assume "i < Suc k"
      then show "env_execute C ((x # xs) ! i) ((collab w # cs) ! i)
                   = (Inr ((out # outs) ! i), (collab w # cs) ! Suc i)"
        using first calls by (cases i) auto
    qed
    moreover have "env_execute C ((x # xs) ! Suc k) ((collab w # cs) ! Suc k) = (Inl e, collab w1)"
      using bad by simp
    moreover have "w1 = w\<lparr>collab := collab w1,
        trace := trace w @ map EnvExecute (take (Suc (Suc k)) (x # xs))\<rparr>"
      using frame by (simp add: w'_def)
    moreover have "Suc k < length (x # xs)" "length (collab w # cs) = Suc (Suc k)"
      "length (out # outs) = Suc k" "(collab w # cs) ! 0 = collab w"
      using k cs by simp_all
    ultimately show ?thesis
      by (intro exI [of _ "Suc k"] exI [of _ "collab w # cs"] exI [of _ "out # outs"]) blast
  qed
qed

lemma get_template_vars_collab:
  "collab w = collab w' \<Longrightarrow> get_template_vars C kwargs (a, w) = get_template_vars C kwargs (a, w')"
  by (simp add: get_template_vars_def)

lemma declared_actions_list:
  "dict_get m ''extra'' = Some (PDict ex) \<Longrightarrow> dict_get ex ''actions'' = Some (PList xs) \<Longrightarrow>
     declared_actions m = Inr xs"
  by (simp add: declared_actions_def py_get_def dict_get_def)

lemma declared_actions_none:
  "dict_get m ''extra'' = Some (PDict ex) \<Longrightarrow> dict_get ex ''actions'' = None \<Longrightarrow>
     declared_actions m = Inr []"
  by (simp add: declared_actions_def py_get_def dict_get_def)

lemma execute_actions_returned:
  assumes "declared_actions m = Inr actions" and "execute_all C actions w = (Inr outputs, w1)"
  shows "trace (snd (snd (execute_actions C m (a, w)))) = trace w @ map EnvExecute actions
     \<and> (case model_format_observation_messages C m outputs
                (get_template_vars C [] (a, w\<lparr>collab := collab w1\<rparr>)) (collab w1) of
           (Inr ms, c') \<Rightarrow>
             fst (execute_actions C m (a, w)) = Inr ms
             \<and> fst (snd (execute_actions C m (a, w))) = a\<lparr>messages := messages a @ ms\<rparr>
             \<and> collab (snd (snd (execute_actions C m (a, w)))) = c'
         | (Inl e, c') \<Rightarrow>
             fst (execute_actions C m (a, w)) = Inl e
             \<and> fst (snd (execute_actions C m (a, w))) = a
             \<and> collab (snd (snd (execute_actions C m (a, w)))) = c')"
proof -
  from execute_all_returns [OF assms(2)]
  have frame: "w1 = w\<lparr>collab := collab w1, trace := trace w @ map EnvExecute actions\<rparr>" by blast
  have tr: "trace w1 = trace w @ map EnvExecute actions"
    using arg_cong [where f = trace, OF frame] by simp
  have tv: "get_template_vars C [] (a, w1) = get_template_vars C [] (a, w\<lparr>collab := collab w1\<rparr>)"
    by (rule get_template_vars_collab) simp
  show ?thesis
    using assms tr
    by (simp add: execute_actions_def Let_def case_prod_beta tv split: sum.splits)
qed

lemma execute_actions_raised:
  assumes "declared_actions m = Inr actions" and "execute_all C actions w = (Inl e, w1)"
  shows "execute_actions C m (a, w) = (Inl e, (a, w1))"
  using assms by (simp add: execute_actions_def)

lemma counting_two_actions:
  "fst (execute_actions counting
      (assistant [(''actions'', PList [PStr ''ls'', PStr ''pwd''])])
      (init_agent demo_config, counting_world (0, 0)))
     = Inr [[(''role'', PStr ''user''), (''content'', PList [PStr ''ls'', PInt 0])],
            [(''role'', PStr ''user''), (''content'', PList [PStr ''pwd'', PInt 1])]]
   \<and> collab (snd (snd (execute_actions counting
      (assistant [(''actions'', PList [PStr ''ls'', PStr ''pwd''])])
      (init_agent demo_config, counting_world (0, 0))))) = (2, 0)"
  by (simp add: execute_actions_def declared_actions_def assistant_def py_get_def counting_def
      counting_world_def init_agent_def Let_def add_messages_def)

text \<open>
  C8. \<^verbatim>\<open>execute_actions\<close> takes the action list from the message's \<^verbatim>\<open>extra\<close> (none when
  the key is missing). The environment is invoked on the actions in the declared order,
  each call starting from the collaborator state the call before it left (\<open>cs\<close>), one
  observation per action (\<open>outs\<close>), for the first \<open>k\<close> actions. Either all calls return
  (\<open>k\<close> is the number of actions): then the formatter is given these observations in the
  state the last call left, and its messages are appended to the trajectory, or, when
  the formatter raises, nothing is appended. Or the call for action \<open>k\<close> raises: then no
  later action is executed, the exception leaves \<^verbatim>\<open>execute_actions\<close> and the agent is as
  it was. With no actions there is no call (\<open>k = 0\<close>).
\<close>

theorem execute_actions_in_order:
  "(dict_get m ''extra'' = Some (PDict ex) \<and> dict_get ex ''actions'' = Some (PList actions)
      \<longrightarrow> declared_actions m = Inr actions)
   \<and> (dict_get m ''extra'' = Some (PDict ex) \<and> dict_get ex ''actions'' = None
      \<longrightarrow> declared_actions m = Inr [])
   \<and> (declared_actions m = Inr actions \<longrightarrow>
        (\<exists>k cs outs. k \<le> length actions \<and> length cs = Suc k \<and> length outs = k
           \<and> cs ! 0 = collab w
           \<and> (\<forall>i<k. env_execute C (actions ! i) (cs ! i) = (Inr (outs ! i), cs ! Suc i))
           \<and> (if k = length actions
               then trace (snd (snd (execute_actions C m (a, w)))) = trace w @ map EnvExecute actions
                 \<and> (case model_format_observation_messages C m outs
                            (get_template_vars C [] (a, w\<lparr>collab := cs ! k\<rparr>)) (cs ! k) of
                       (Inr ms, c') \<Rightarrow>
                         fst (execute_actions C m (a, w)) = Inr ms
                         \<and> fst (snd (execute_actions C m (a, w))) = a\<lparr>messages := messages a @ ms\<rparr>
                         \<and> collab (snd (snd (execute_actions C m (a, w)))) = c'
                     | (Inl e, c') \<Rightarrow>
                         fst (execute_actions C m (a, w)) = Inl e
                         \<and> fst (snd (execute_actions C m (a, w))) = a
                         \<and> collab (snd (snd (execute_actions C m (a, w)))) = c')
               else trace (snd (snd (execute_actions C m (a, w))))
                      = trace w @ map EnvExecute (take (Suc k) actions)
                 \<and> (\<exists>e. env_execute C (actions ! k) (cs ! k)
                            = (Inl e, collab (snd (snd (execute_actions C m (a, w)))))
                        \<and> fst (execute_actions C m (a, w)) = Inl e
                        \<and> fst (snd (execute_actions C m (a, w))) = a))))"
proof (intro conjI impI)
  assume "dict_get m ''extra'' = Some (PDict ex) \<and> dict_get ex ''actions'' = Some (PList actions)"
  then show "declared_actions m = Inr actions" by (simp add: declared_actions_list)
next
  assume "dict_get m ''extra'' = Some (PDict ex) \<and> dict_get ex ''actions'' = None"
  then show "declared_actions m = Inr []" by (simp add: declared_actions_none)
next
  assume decl: "declared_actions m = Inr actions"
  let ?R = "execute_actions C m (a, w)"
  obtain r w1 where run: "execute_all C actions w = (r, w1)" by (cases "execute_all C actions w")
  show "\<exists>k cs outs. k \<le> length actions \<and> length cs = Suc k \<and> length outs = k
           \<and> cs ! 0 = collab w
           \<and> (\<forall>i<k. env_execute C (actions ! i) (cs ! i) = (Inr (outs ! i), cs ! Suc i))
           \<and> (if k = length actions
               then trace (snd (snd ?R)) = trace w @ map EnvExecute actions
                 \<and> (case model_format_observation_messages C m outs
                            (get_template_vars C [] (a, w\<lparr>collab := cs ! k\<rparr>)) (cs ! k) of
                       (Inr ms, c') \<Rightarrow>
                         fst ?R = Inr ms
                         \<and> fst (snd ?R) = a\<lparr>messages := messages a @ ms\<rparr>
                         \<and> collab (snd (snd ?R)) = c'
                     | (Inl e, c') \<Rightarrow>
                         fst ?R = Inl e \<and> fst (snd ?R) = a \<and> collab (snd (snd ?R)) = c')
               else trace (snd (snd ?R)) = trace w @ map EnvExecute (take (Suc k) actions)
                 \<and> (\<exists>e. env_execute C (actions ! k) (cs ! k) = (Inl e, collab (snd (snd ?R)))
                        \<and> fst ?R = Inl e \<and> fst (snd ?R) = a))"
  proof (cases r)
    case (Inr outputs)
    with run have ok: "execute_all C actions w = (Inr outputs, w1)" by simp
    from execute_all_returns [OF ok] obtain cs where
      len: "length outputs = length actions"
      and cs: "length cs = Suc (length actions)" "cs ! 0 = collab w" "cs ! length actions = collab w1"
      and calls: "\<forall>i<length actions.
                    env_execute C (actions ! i) (cs ! i) = (Inr (outputs ! i), cs ! Suc i)"
      by blast
    from execute_actions_returned [OF decl ok, of a] cs(3)
    have "trace (snd (snd ?R)) = trace w @ map EnvExecute actions
       \<and> (case model_format_observation_messages C m outputs
                (get_template_vars C [] (a, w\<lparr>collab := cs ! length actions\<rparr>))
                (cs ! length actions) of
             (Inr ms, c') \<Rightarrow>
               fst ?R = Inr ms \<and> fst (snd ?R) = a\<lparr>messages := messages a @ ms\<rparr>
               \<and> collab (snd (snd ?R)) = c'
           | (Inl e, c') \<Rightarrow>
               fst ?R = Inl e \<and> fst (snd ?R) = a \<and> collab (snd (snd ?R)) = c')"
      by simp
    with len cs calls show ?thesis
      by (intro exI [of _ "length actions"] exI [of _ cs] exI [of _ outputs]) simp
  next
    case (Inl e)
    with run have bad: "execute_all C actions w = (Inl e, w1)" by simp
    from execute_all_raises [OF bad] obtain k cs outs where
      k: "k < length actions" and cs: "length cs = Suc k" "length outs = k" "cs ! 0 = collab w"
      and calls: "\<forall>i<k. env_execute C (actions ! i) (cs ! i) = (Inr (outs ! i), cs ! Suc i)"
      and raise: "env_execute C (actions ! k) (cs ! k) = (Inl e, collab w1)"
      and frame: "w1 = w\<lparr>collab := collab w1,
                          trace := trace w @ map EnvExecute (take (Suc k) actions)\<rparr>"
      by blast
    have tr: "trace w1 = trace w @ map EnvExecute (take (Suc k) actions)"
      using arg_cong [where f = trace, OF frame] by simp
    have R: "?R = (Inl e, (a, w1))" by (rule execute_actions_raised [OF decl bad])
    from k cs calls raise tr show ?thesis
      unfolding R
      by (intro exI [of _ k] exI [of _ cs] exI [of _ outs]) auto
  qed
qed

theorem execute_actions_in_order_witness:
  "declared_actions (assistant [(''actions'', PList [PStr ''ls'', PStr ''pwd''])])
     = Inr [PStr ''ls'', PStr ''pwd'']
   \<and> (\<exists>k cs outs. k \<le> 2 \<and> length cs = Suc k \<and> length outs = k \<and> cs ! 0 = (0, 0)
         \<and> (\<forall>i<k. env_execute counting ([PStr ''ls'', PStr ''pwd''] ! i) (cs ! i)
                     = (Inr (outs ! i), cs ! Suc i)))
   \<and> fst (execute_actions counting
      (assistant [(''actions'', PList [PStr ''ls'', PStr ''pwd''])])
      (init_agent demo_config, counting_world (0, 0)))
     = Inr [[(''role'', PStr ''user''), (''content'', PList [PStr ''ls'', PInt 0])],
            [(''role'', PStr ''user''), (''content'', PList [PStr ''pwd'', PInt 1])]]
   \<and> collab (snd (snd (execute_actions counting
      (assistant [(''actions'', PList [PStr ''ls'', PStr ''pwd''])])
      (init_agent demo_config, counting_world (0, 0))))) = (2, 0)"
proof -
  have h: "declared_actions (assistant [(''actions'', PList [PStr ''ls'', PStr ''pwd''])])
     = Inr [PStr ''ls'', PStr ''pwd'']"
    by (simp add: declared_actions_def assistant_def py_get_def)
  from execute_actions_in_order [where m = "assistant [(''actions'', PList [PStr ''ls'', PStr ''pwd''])]"
      and actions = "[PStr ''ls'', PStr ''pwd'']" and C = counting
      and w = "counting_world (0, 0)" and a = "init_agent demo_config"] h
  obtain k cs outs where "k \<le> length [PStr ''ls'', PStr ''pwd'']" "length cs = Suc k"
    "length outs = k" "cs ! 0 = collab (counting_world (0, 0))"
    "\<forall>i<k. env_execute counting ([PStr ''ls'', PStr ''pwd''] ! i) (cs ! i)
                     = (Inr (outs ! i), cs ! Suc i)"
    by blast
  then have "k \<le> 2" "length cs = Suc k" "length outs = k" "cs ! 0 = (0, 0)"
    "\<forall>i<k. env_execute counting ([PStr ''ls'', PStr ''pwd''] ! i) (cs ! i)
                     = (Inr (outs ! i), cs ! Suc i)"
    by (simp_all add: counting_world_def)
  then have "\<exists>k cs outs. k \<le> 2 \<and> length cs = Suc k \<and> length outs = k \<and> cs ! 0 = (0, 0)
         \<and> (\<forall>i<k. env_execute counting ([PStr ''ls'', PStr ''pwd''] ! i) (cs ! i)
                     = (Inr (outs ! i), cs ! Suc i))"
    by blast
  with h counting_two_actions show ?thesis by blast
qed

text \<open>
  Two actions declared, and the first one raises: the environment has been invoked once
  (its counter is 1), the second action is never executed and no observation is added.
\<close>

theorem execute_actions_stops_at_raise:
  "declared_actions (assistant [(''actions'', PList [PStr ''crash'', PStr ''ls''])])
     = Inr [PStr ''crash'', PStr ''ls'']
   \<and> execute_actions counting
      (assistant [(''actions'', PList [PStr ''crash'', PStr ''ls''])])
      (init_agent demo_config, counting_world (0, 0))
     = (Inl (PyException ''RuntimeError'' ''boom''),
        (init_agent demo_config,
         (counting_world (0, 0))\<lparr>collab := (1, 0), trace := [EnvExecute (PStr ''crash'')]\<rparr>))"
  by (simp add: execute_actions_def declared_actions_def assistant_def py_get_def counting_def
      counting_world_def init_agent_def Let_def)

section \<open>Trajectory serialisation\<close>

lemma serialize_agent [simp]: "fst (snd (serialize C extra_dicts st)) = fst st"
  by (simp add: serialize_def Let_def case_prod_beta split: sum.splits pyval.splits)

lemma serialize_world:
  "snd (snd (serialize C extra_dicts st)) =
     (snd st)\<lparr>collab := collab (snd (snd (serialize C extra_dicts st)))\<rparr>"
  by (simp add: serialize_def Let_def case_prod_beta split: sum.splits pyval.splits)

lemma serialize_world_fields [simp]:
  "trace (snd (snd (serialize C extra_dicts st))) = trace (snd st)"
  "files (snd (snd (serialize C extra_dicts st))) = files (snd st)"
  "unwritable (snd (snd (serialize C extra_dicts st))) = unwritable (snd st)"
  "context_window_map (snd (snd (serialize C extra_dicts st))) = context_window_map (snd st)"
  "warnings (snd (snd (serialize C extra_dicts st))) = warnings (snd st)"
  by (subst serialize_world, simp)+

lemma serialize_read_only:
  "snd (model_serialize C (collab w)) = collab w \<Longrightarrow> snd (env_serialize C (collab w)) = collab w
     \<Longrightarrow> snd (serialize C extra_dicts (a, w)) = (a, w)"
  by (simp add: serialize_def Let_def case_prod_beta split: sum.splits pyval.splits)

lemma serialize_reads:
  "fst (serialize C extra_dicts
      (a\<lparr>extra_template_vars := tv, live_trajectory_path := lp, context_window_max := cm,
          context_window_prompt_tokens := pt, context_left_percent := lpc,
          context_window_mode := md\<rparr>,
       w\<lparr>files := fs, unwritable := uw, context_window_map := cmap, warnings := ws,
          trace := tr\<rparr>))
   = fst (serialize C extra_dicts (a, w))"
  by (simp add: serialize_def Let_def case_prod_beta split: sum.splits pyval.splits)

lemma scripted_serialize_read_only:
  "snd (model_serialize scripted c) = c" "snd (env_serialize scripted c) = c"
  by (simp_all add: scripted_def)

lemma finished_snapshot_status:
  "\<exists>snapshot info. fst (serialize scripted [[(''info'', PDict [(''note'', PStr ''checkpoint'')])]]
      ((init_agent demo_config)
         \<lparr>messages := [assistant [(''cost'', PFloat (Fin (1 / 2)))],
                       [(''role'', PStr ''exit''), (''content'', PStr ''done''),
                        (''extra'', PDict [(''exit_status'', PStr ''Submitted''),
                                          (''submission'', PStr ''patch'')])]],
           cost := Fin (1 / 2), n_calls := 1\<rparr>,
       demo_world [Inl submitted])) = Inr snapshot
     \<and> dict_get snapshot ''info'' = Some (PDict info)
     \<and> dict_get info ''exit_status'' = Some (PStr ''Submitted'')
     \<and> dict_get info ''note'' = Some (PStr ''checkpoint'')"
  by (simp add: serialize_def Let_def scripted_def demo_world_def init_agent_def py_get_def
      dict_get_def assistant_def recursive_merge_def)

text \<open>
  C9. \<^verbatim>\<open>serialize\<close> returns the agent exactly as it was, and of the world it can change
  nothing but the state of the collaborators, through their own \<^verbatim>\<open>serialize\<close>. When
  these two calls leave the collaborators as they were, a second \<^verbatim>\<open>serialize\<close> with the
  same arguments returns the same snapshot as the first. The snapshot does not depend
  on the template variables, the live log path, the context budget fields, the files or
  the log: it is read from the messages, the cost, the call count, the configuration,
  the agent's class and the collaborators.
\<close>

theorem serialize_idempotent:
  "fst (snd (serialize C extra_dicts (a, w))) = a
   \<and> snd (snd (serialize C extra_dicts (a, w)))
       = w\<lparr>collab := collab (snd (snd (serialize C extra_dicts (a, w))))\<rparr>
   \<and> (snd (model_serialize C (collab w)) = collab w \<and> snd (env_serialize C (collab w)) = collab w
       \<longrightarrow> serialize C extra_dicts (snd (serialize C extra_dicts (a, w)))
             = serialize C extra_dicts (a, w))
   \<and> fst (serialize C extra_dicts
        (a\<lparr>extra_template_vars := tv, live_trajectory_path := lp, context_window_max := cm,
            context_window_prompt_tokens := pt, context_left_percent := lpc,
            context_window_mode := md\<rparr>,
         w\<lparr>files := fs, unwritable := uw, context_window_map := cmap, warnings := ws,
            trace := tr\<rparr>))
       = fst (serialize C extra_dicts (a, w))"
  using serialize_world [where C = C and extra_dicts = extra_dicts and st = "(a, w)"]
  by (simp add: serialize_read_only serialize_reads)

theorem serialize_idempotent_witness:
  "serialize scripted [[(''info'', PDict [(''note'', PStr ''checkpoint'')])]]
     (snd (serialize scripted [[(''info'', PDict [(''note'', PStr ''checkpoint'')])]]
        ((init_agent demo_config)
           \<lparr>messages := [assistant [(''cost'', PFloat (Fin (1 / 2)))],
                         [(''role'', PStr ''exit''), (''content'', PStr ''done''),
                          (''extra'', PDict [(''exit_status'', PStr ''Submitted''),
                                            (''submission'', PStr ''patch'')])]],
             cost := Fin (1 / 2), n_calls := 1\<rparr>,
         demo_world [Inl submitted])))
   = serialize scripted [[(''info'', PDict [(''note'', PStr ''checkpoint'')])]]
        ((init_agent demo_config)
           \<lparr>messages := [assistant [(''cost'', PFloat (Fin (1 / 2)))],
                         [(''role'', PStr ''exit''), (''content'', PStr ''done''),
                          (''extra'', PDict [(''exit_status'', PStr ''Submitted''),
                                            (''submission'', PStr ''patch'')])]],
             cost := Fin (1 / 2), n_calls := 1\<rparr>,
         demo_world [Inl submitted])
   \<and> (\<exists>snapshot info. fst (serialize scripted [[(''info'', PDict [(''note'', PStr ''checkpoint'')])]]
      ((init_agent demo_config)
         \<lparr>messages := [assistant [(''cost'', PFloat (Fin (1 / 2)))],
                       [(''role'', PStr ''exit''), (''content'', PStr ''done''),
                        (''extra'', PDict [(''exit_status'', PStr ''Submitted''),
                                          (''submission'', PStr ''patch'')])]],
           cost := Fin (1 / 2), n_calls := 1\<rparr>,
       demo_world [Inl submitted])) = Inr snapshot
     \<and> dict_get snapshot ''info'' = Some (PDict info)
     \<and> dict_get info ''exit_status'' = Some (PStr ''Submitted'')
     \<and> dict_get info ''note'' = Some (PStr ''checkpoint''))"
  using serialize_idempotent [where C = scripted
      and extra_dicts = "[[(''info'', PDict [(''note'', PStr ''checkpoint'')])]]"
      and a = "(init_agent demo_config)
           \<lparr>messages := [assistant [(''cost'', PFloat (Fin (1 / 2)))],
                         [(''role'', PStr ''exit''), (''content'', PStr ''done''),
                          (''extra'', PDict [(''exit_status'', PStr ''Submitted''),
                                            (''submission'', PStr ''patch'')])]],
             cost := Fin (1 / 2), n_calls := 1\<rparr>"
      and w = "demo_world [Inl submitted]"]
    scripted_serialize_read_only finished_snapshot_status
  by blast

text \<open>
  Messages, cost, call count and configuration being the same, two snapshots differ
  when the environment has executed an action in between and reports it in its part
  of the snapshot; and two snapshots taken one right after the other differ when a
  collaborator's \<^verbatim>\<open>serialize\<close> changes what it reports (here the model counts its
  serialisations).
\<close>

theorem serialize_depends_on_collaborators:
  "fst (serialize counting [] (init_agent demo_config, counting_world (0, 0)))
     \<noteq> fst (serialize counting []
           (init_agent demo_config,
            (counting_world (0, 0))
              \<lparr>collab := snd (env_execute counting (PStr ''ls'') (0, 0))\<rparr>))
   \<and> fst (serialize counting [] (snd (serialize counting []
           (init_agent demo_config, counting_world (0, 0)))))
     \<noteq> fst (serialize counting [] (init_agent demo_config, counting_world (0, 0)))"
  by (simp add: serialize_def Let_def counting_def counting_world_def init_agent_def py_get_def
      dict_get_def recursive_merge_def)

section \<open>Snapshots and the live log\<close>

lemma save_unfold:
  "save C p extra_dicts st =
     (case fst (serialize C extra_dicts st) of
        Inl e \<Rightarrow> (Inl e, snd (serialize C extra_dicts st))
      | Inr data \<Rightarrow>
          (case p of
             None \<Rightarrow> (Inr data, snd (serialize C extra_dicts st))
           | Some q \<Rightarrow>
               (case write_text q (PDict data) (snd (snd (serialize C extra_dicts st))) of
                  Inl e \<Rightarrow> (Inl e, snd (serialize C extra_dicts st))
                | Inr w' \<Rightarrow> (Inr data, (fst st, w')))))"
proof -
  obtain r a' w' where s: "serialize C extra_dicts st = (r, (a', w'))"
    by (cases "serialize C extra_dicts st") auto
  then have "a' = fst st" using serialize_agent [of C extra_dicts st] by simp
  with s show ?thesis
    unfolding save_def by (cases r; cases p) (simp_all split: sum.splits)
qed


lemma save_world:
  "snd (snd (save C p extra_dicts st)) =
     (snd st)\<lparr>collab := collab (snd (snd (save C p extra_dicts st))),
              files := files (snd (snd (save C p extra_dicts st)))\<rparr>"
proof -
  have "snd (snd (serialize C extra_dicts st)) =
      (snd st)\<lparr>collab := collab (snd (snd (serialize C extra_dicts st)))\<rparr>"
    by (rule serialize_world)
  then obtain c where "snd (snd (serialize C extra_dicts st)) = (snd st)\<lparr>collab := c\<rparr>" ..
  then show ?thesis
    by (auto simp: save_unfold write_text_def split: sum.splits option.splits if_splits)
qed

lemma save_world_fields [simp]:
  "trace (snd (snd (save C p extra_dicts st))) = trace (snd st)"
  "unwritable (snd (snd (save C p extra_dicts st))) = unwritable (snd st)"
  "context_window_map (snd (snd (save C p extra_dicts st))) = context_window_map (snd st)"
  "warnings (snd (snd (save C p extra_dicts st))) = warnings (snd st)"
  by (subst save_world, simp)+


lemma save_write_failure:
  "p \<in> set (unwritable (snd st)) \<Longrightarrow> fst (serialize C extra_dicts st) = Inr data \<Longrightarrow>
     save C (Some p) extra_dicts st = (Inl (PyException ''OSError'' p), snd (serialize C extra_dicts st))"
  by (simp add: save_unfold write_text_def)

lemma add_messages_write_failure:
  "live_trajectory_path a = Some p \<Longrightarrow> p \<in> set (unwritable w) \<Longrightarrow>
     add_messages ms (a, w) =
       (ms, (a\<lparr>messages := messages a @ ms\<rparr>,
             w\<lparr>warnings := warnings w @ [(p, PyException ''OSError'' p)]\<rparr>))"
  by (simp add: add_messages_def Let_def append_lines_def)

lemma serialize_empty_trajectory:
  "messages a = [] \<Longrightarrow> fst (model_serialize C (collab w)) = Inr md
     \<Longrightarrow> fst (env_serialize C (snd (model_serialize C (collab w)))) = Inr ed
     \<Longrightarrow> \<exists>data. fst (serialize C extra_dicts (a, w)) = Inr data"
  by (simp add: serialize_def Let_def py_get_def dict_get_def case_prod_beta)

text \<open>
  C5. A failure to append to the live log is caught by \<^verbatim>\<open>add_messages\<close>: the messages
  are added to the trajectory all the same and a warning is logged. A failure to write
  the snapshot is not caught: \<^verbatim>\<open>save\<close> has no handler around \<^verbatim>\<open>write_text\<close>, so the
  \<^verbatim>\<open>OSError\<close> leaves \<^verbatim>\<open>save\<close>, which returns no snapshot.
\<close>

theorem save_raises_on_write_failure:
  "(p \<in> set (unwritable (snd st)) \<and> fst (serialize C extra_dicts st) = Inr data
      \<longrightarrow> save C (Some p) extra_dicts st
            = (Inl (PyException ''OSError'' p), snd (serialize C extra_dicts st)))
   \<and> (live_trajectory_path a = Some p \<and> p \<in> set (unwritable w)
      \<longrightarrow> add_messages ms (a, w) =
            (ms, (a\<lparr>messages := messages a @ ms\<rparr>,
                  w\<lparr>warnings := warnings w @ [(p, PyException ''OSError'' p)]\<rparr>)))"
  using save_write_failure [where p = p and st = st and C = C and extra_dicts = extra_dicts
      and data = data]
    add_messages_write_failure [where a = a and p = p and w = w and ms = ms]
  by blast

theorem save_raises_on_write_failure_witness:
  "fst (save scripted (Some ''out.json'') []
      (init_agent demo_config, (demo_world [])\<lparr>unwritable := [''out.json'']\<rparr>))
     = Inl (PyException ''OSError'' ''out.json'')
   \<and> messages (fst (snd (add_messages [assistant []]
        ((init_agent demo_config)\<lparr>live_trajectory_path := Some ''out.json''\<rparr>,
         (demo_world [])\<lparr>unwritable := [''out.json'']\<rparr>)))) = [assistant []]"
proof -
  obtain data where "fst (serialize scripted []
      (init_agent demo_config, (demo_world [])\<lparr>unwritable := [''out.json'']\<rparr>)) = Inr data"
    using serialize_empty_trajectory [where a = "init_agent demo_config" and C = scripted
        and w = "(demo_world [])\<lparr>unwritable := [''out.json'']\<rparr>" and extra_dicts = "[]"]
    by (auto simp: init_agent_def scripted_def)
  with save_raises_on_write_failure [where p = "''out.json''"
      and st = "(init_agent demo_config, (demo_world [])\<lparr>unwritable := [''out.json'']\<rparr>)"
      and C = scripted and extra_dicts = "[]" and data = data
      and a = "(init_agent demo_config)\<lparr>live_trajectory_path := Some ''out.json''\<rparr>"
      and w = "(demo_world [])\<lparr>unwritable := [''out.json'']\<rparr>" and ms = "[assistant []]"]
  show ?thesis by (simp add: init_agent_def)
qed

text \<open>
  Through the \<^verbatim>\<open>finally\<close> clause of \<^verbatim>\<open>run\<close> the failure ends the run: a run that the
  submission would have ended normally raises \<^verbatim>\<open>OSError\<close> instead.
\<close>

lemma run_aborted_by_snapshot_failure:
  "map_option fst (run scripted 1 ''t'' []
      (init_agent (demo_config\<lparr>output_path := Some ''out.json''\<rparr>),
       (demo_world [Inr (assistant [(''actions'', PList [PStr ''submit''])])])
         \<lparr>unwritable := [''out.json'']\<rparr>))
   = Some (Inl (PyException ''OSError'' ''out.json''))"
  by code_simp

section \<open>Run loop\<close>








section \<open>Uncaught exceptions\<close>

lemma handle_uncaught_exception_agent [simp]:
  "fst (snd (handle_uncaught_exception C e st)) =
     (fst st)\<lparr>messages := messages (fst st) @
        [[(''role'', PStr ''exit''), (''content'', PStr (exn_str e)),
          (''extra'', PDict [(''exit_status'', PStr (exn_name e)),
                            (''submission'', PStr []),
                            (''exception_str'', PStr (exn_str e)),
                            (''traceback'', PStr (format_exc C e))])]]\<rparr>"
  by (simp add: handle_uncaught_exception_def format_message_def)








section \<open>Context budget without a maximum\<close>

lemma execute_all_world:
  "snd (execute_all C actions w) =
     w\<lparr>collab := collab (snd (execute_all C actions w)),
       trace := trace (snd (execute_all C actions w))\<rparr>"
proof (cases "execute_all C actions w")
  case (Pair r w1)
  show ?thesis
  proof (cases r)
    case (Inl e)
    with Pair execute_all_raises [of C actions w e w1] obtain t where
      "w1 = w\<lparr>collab := collab w1, trace := t\<rparr>" by blast
    then have "w1 = w\<lparr>collab := collab w1, trace := trace w1\<rparr>"
      by (metis (full_types) world.surjective world.update_convs(6) world.select_convs(6))
    with Pair show ?thesis by simp
  next
    case (Inr outs)
    with Pair execute_all_returns [of C actions w outs w1] obtain t where
      "w1 = w\<lparr>collab := collab w1, trace := t\<rparr>" by blast
    then have "w1 = w\<lparr>collab := collab w1, trace := trace w1\<rparr>"
      by (metis (full_types) world.surjective world.update_convs(6) world.select_convs(6))
    with Pair show ?thesis by simp
  qed
qed

lemma execute_all_world_fields [simp]:
  "files (snd (execute_all C actions w)) = files w"
  "unwritable (snd (execute_all C actions w)) = unwritable w"
  "context_window_map (snd (execute_all C actions w)) = context_window_map w"
  "warnings (snd (execute_all C actions w)) = warnings w"
  by (subst execute_all_world, simp)+

lemma execute_actions_agent:
  "fst (snd (execute_actions C m st)) =
     (fst st)\<lparr>messages := messages (fst (snd (execute_actions C m st)))\<rparr>"
  by (simp add: execute_actions_def Let_def case_prod_beta split: sum.splits)

lemma execute_actions_fields [simp]:
  "context_window_max (fst (snd (execute_actions C m st))) = context_window_max (fst st)"
  "context_left_percent (fst (snd (execute_actions C m st))) = context_left_percent (fst st)"
  "config (fst (snd (execute_actions C m st))) = config (fst st)"
  "cost (fst (snd (execute_actions C m st))) = cost (fst st)"
  "n_calls (fst (snd (execute_actions C m st))) = n_calls (fst st)"
  by (subst execute_actions_agent, simp)+

lemma execute_actions_map [simp]:
  "context_window_map (snd (snd (execute_actions C m st))) = context_window_map (snd st)"
  by (simp add: execute_actions_def Let_def case_prod_beta split: sum.splits)












end
